theory Spec2Isabelle
  imports Main
begin

section \<open>Program parameters\<close>

text \<open>
  The program's parameters are ten package-level variables, each bound to a
  command-line flag by \<open>init\<close> with a default taken from the constant block.
  Go's \<open>int\<close> is modelled as \<open>int\<close>: no arithmetic is done on the parameters.
\<close>

record config =
  adminIface :: string
  tcpIface :: string
  udpIface :: string
  kBrokers :: string
  kBatch :: int
  kTopic :: string
  kBufferTime :: int
  kBufferBytes :: int
  pEnabled :: bool
  cCapacity :: int

definition adminHost :: string where "adminHost = ''localhost:8080''"
definition connTcpHost :: string where "connTcpHost = ''localhost:514''"
definition connUdpHost :: string where "connUdpHost = ''localhost:514''"
definition connType :: string where "connType = ''tcp''"
definition kafkaBatch :: int where "kafkaBatch = 10"
definition kafkaBrokers :: string where "kafkaBrokers = ''localhost:9092''"
definition kafkaTopic :: string where "kafkaTopic = ''logs''"
definition kafkaBufferTime :: int where "kafkaBufferTime = 1000"
definition kafkaBufferBytes :: int where "kafkaBufferBytes = 512 * 1024"
definition parseEnabled :: bool where "parseEnabled = True"
definition chanCapacity :: int where "chanCapacity = 0"

text \<open>
  \<open>init\<close> registers the ten flags: each Go call \<open>flag.XxxVar(&v, name, default, usage)\<close>
  stores the default in \<open>v\<close> and binds \<open>name\<close> to \<open>v\<close>. The state after \<open>init\<close> is
  the configuration holding the defaults; \<open>flag_Set\<close> is the binding of flag names to
  variables and their types.
\<close>

definition init :: config where
  "init = \<lparr> adminIface = adminHost, tcpIface = connTcpHost, udpIface = connUdpHost,
            kBrokers = kafkaBrokers, kBatch = kafkaBatch, kTopic = kafkaTopic,
            kBufferTime = kafkaBufferTime, kBufferBytes = kafkaBufferBytes,
            pEnabled = parseEnabled, cCapacity = chanCapacity \<rparr>"

datatype flag_value = StringValue string | IntValue int | BoolValue bool

text \<open>
  Setting one flag. An undefined flag name or a value of the wrong type is an error of
  the flag package (\<open>None\<close>).
\<close>

fun flag_Set :: "string \<Rightarrow> flag_value \<Rightarrow> config \<Rightarrow> config option" where
  "flag_Set name (StringValue v) c =
     (if name = ''admin'' then Some (c\<lparr>adminIface := v\<rparr>)
      else if name = ''tcp'' then Some (c\<lparr>tcpIface := v\<rparr>)
      else if name = ''udp'' then Some (c\<lparr>udpIface := v\<rparr>)
      else if name = ''broker'' then Some (c\<lparr>kBrokers := v\<rparr>)
      else if name = ''topic'' then Some (c\<lparr>kTopic := v\<rparr>)
      else None)"
| "flag_Set name (IntValue v) c =
     (if name = ''batch'' then Some (c\<lparr>kBatch := v\<rparr>)
      else if name = ''maxbuff'' then Some (c\<lparr>kBufferTime := v\<rparr>)
      else if name = ''maxbytes'' then Some (c\<lparr>kBufferBytes := v\<rparr>)
      else if name = ''chancap'' then Some (c\<lparr>cCapacity := v\<rparr>)
      else None)"
| "flag_Set name (BoolValue v) c =
     (if name = ''parse'' then Some (c\<lparr>pEnabled := v\<rparr>) else None)"

text \<open>
  \<open>flag.Parse()\<close> over the flags of the command line, read as (name, value) pairs in the
  order given: each sets its variable; the first error stops the parse.
\<close>

fun flag_Parse :: "(string \<times> flag_value) list \<Rightarrow> config \<Rightarrow> config option" where
  "flag_Parse [] c = Some c"
| "flag_Parse ((name, v) # args) c =
     (case flag_Set name v c of None \<Rightarrow> None | Some c' \<Rightarrow> flag_Parse args c')"

section \<open>The administrative HTTP handlers\<close>

text \<open>
  A request is seen by the handlers only through \<open>req.ParseForm()\<close> and \<open>req.Form\<close>:
  the record holds the error \<open>ParseForm\<close> returns (if any) and the form it leaves in the
  request. The form maps a key to the list of its values. The Go library fills the form
  with every parameter it could decode even when it returns an error for another one.
\<close>

record request =
  ParseFormError :: "string option"
  Form :: "string \<rightharpoonup> string list"

text \<open>\<open>isPretty\<close> returns whether the response body should be pretty-printed, and the
  error of \<open>ParseForm\<close>.\<close>

definition isPretty :: "request \<Rightarrow> bool \<times> string option" where
  "isPretty req =
     (case ParseFormError req of
        Some err \<Rightarrow> (False, Some err)
      | None \<Rightarrow>
          (case Form req ''pretty'' of
             Some _ \<Rightarrow> (True, None)
           | None \<Rightarrow> (False, None)))"

text \<open>
  The response writer: the status code is unset until the header is written; the first
  \<open>Write\<close> without a header sends 200. \<open>http.Error\<close> writes the header with the given
  code and the message followed by a newline.
\<close>

record response_writer =
  statusCode :: "nat option"
  body :: string

definition fresh_writer :: response_writer where
  "fresh_writer = \<lparr> statusCode = None, body = [] \<rparr>"

definition StatusOK :: nat where "StatusOK = 200"
definition StatusInternalServerError :: nat where "StatusInternalServerError = 500"

definition WriteHeader :: "nat \<Rightarrow> response_writer \<Rightarrow> response_writer" where
  "WriteHeader code w = (case statusCode w of None \<Rightarrow> w\<lparr>statusCode := Some code\<rparr> | Some _ \<Rightarrow> w)"

definition Write :: "string \<Rightarrow> response_writer \<Rightarrow> response_writer" where
  "Write b w = (let w' = WriteHeader StatusOK w in w'\<lparr>body := body w' @ b\<rparr>)"

definition http_Error :: "response_writer \<Rightarrow> string \<Rightarrow> nat \<Rightarrow> response_writer" where
  "http_Error w msg code = Write (msg @ [CHR 0x0A]) (WriteHeader code w)"

text \<open>
  The four program resources, each seen through its \<open>GetStatistics()\<close>: the field holds
  what the call returns at the time of the request, the error (\<open>Inl\<close>) or the registry.
  The resources are those \<open>main\<close> has created; a request served before that calls the
  method on a nil pointer, which is not modelled.
  \<open>resources\<close> is the map literal of \<open>ServeStatistics\<close>.
\<close>

record 'r program_resources =
  tcpServer :: "string + 'r"
  udpServer :: "string + 'r"
  parser :: "string + 'r"
  kafka :: "string + 'r"

definition resources :: "'r program_resources \<Rightarrow> (string \<rightharpoonup> string + 'r)" where
  "resources g = [''tcp'' \<mapsto> tcpServer g, ''udp'' \<mapsto> udpServer g,
                  ''parser'' \<mapsto> parser g, ''kafka'' \<mapsto> kafka g]"

text \<open>
  The loop \<open>for k, v := range resources\<close>. Go visits the entries of a map once each, in
  an order it does not specify: the loop takes the sequence of entries as visited. It
  stops at the first resource whose \<open>GetStatistics\<close> fails and returns its key.
\<close>

fun range_resources ::
  "(string \<times> (string + 'r)) list \<Rightarrow> (string \<rightharpoonup> 'r) \<Rightarrow> string + (string \<rightharpoonup> 'r)" where
  "range_resources [] statistics = Inr statistics"
| "range_resources ((k, v) # kvs) statistics =
     (case v of
        Inl err \<Rightarrow> Inl k
      | Inr s \<Rightarrow> range_resources kvs (statistics(k \<mapsto> s)))"

text \<open>
  A handler returns the lines it logs and the response writer. \<open>Marshal\<close> and
  \<open>MarshalIndent\<close> stand for \<open>json.Marshal(m)\<close> and \<open>json.MarshalIndent(m, "", "    ")\<close>,
  which return an error or the bytes.
\<close>

definition ServeStatistics ::
  "((string \<rightharpoonup> 'r) \<Rightarrow> string + string) \<Rightarrow> ((string \<rightharpoonup> 'r) \<Rightarrow> string + string) \<Rightarrow>
   (string \<times> (string + 'r)) list \<Rightarrow> response_writer \<Rightarrow> request \<Rightarrow> string list \<times> response_writer" where
  "ServeStatistics Marshal MarshalIndent visited w req =
     (case range_resources visited Map.empty of
        Inl k \<Rightarrow>
          ([''failed to get '' @ k @ '' stats''],
           http_Error w (''failed to get '' @ k @ '' stats'') StatusInternalServerError)
      | Inr statistics \<Rightarrow>
          (let (pretty, _) = isPretty req;
               r = (if pretty then MarshalIndent statistics else Marshal statistics)
           in case r of
                Inl err \<Rightarrow>
                  ([''failed to JSON marshal statistics map''],
                   http_Error w ''failed to JSON marshal statistics map'' StatusInternalServerError)
              | Inr b \<Rightarrow> ([], Write b w)))"

text \<open>
  \<open>ServeDiagnostics\<close>: \<open>started\<close> and \<open>uptime\<close> are the strings of \<open>startTime.String()\<close>
  and \<open>time.Since(startTime).String()\<close>. The error of either marshaller is dropped
  (\<open>b, _ = ...\<close>), which leaves \<open>b\<close> nil.
\<close>

definition bytes_ignoring_error :: "string + string \<Rightarrow> string" where
  "bytes_ignoring_error r = (case r of Inl err \<Rightarrow> [] | Inr b \<Rightarrow> b)"

definition ServeDiagnostics ::
  "((string \<rightharpoonup> string) \<Rightarrow> string + string) \<Rightarrow> ((string \<rightharpoonup> string) \<Rightarrow> string + string) \<Rightarrow>
   string \<Rightarrow> string \<Rightarrow> response_writer \<Rightarrow> request \<Rightarrow> string list \<times> response_writer" where
  "ServeDiagnostics Marshal MarshalIndent started uptime w req =
     (let diagnostics = [''started'' \<mapsto> started, ''uptime'' \<mapsto> uptime];
          (pretty, _) = isPretty req;
          b = (if pretty then bytes_ignoring_error (MarshalIndent diagnostics)
               else bytes_ignoring_error (Marshal diagnostics))
      in ([], Write b w))"

text \<open>
  The snapshots a resource map holds: the registries of the resources whose
  \<open>GetStatistics\<close> succeeded.
\<close>

definition snapshots :: "(string \<rightharpoonup> string + 'r) \<Rightarrow> (string \<rightharpoonup> 'r)" where
  "snapshots res = (\<lambda>k. case res k of Some (Inr s) \<Rightarrow> Some s | _ \<Rightarrow> None)"

text \<open>A sample state of the resources, with the broker connection failing, and one
  order in which the loop may visit them.\<close>

definition kafka_down :: "nat program_resources" where
  "kafka_down = \<lparr> tcpServer = Inr 1, udpServer = Inr 2, parser = Inr 3, kafka = Inl ''down'' \<rparr>"

definition kafka_down_visit :: "(string \<times> (string + nat)) list" where
  "kafka_down_visit = [(''udp'', Inr 2), (''kafka'', Inl ''down''), (''tcp'', Inr 1), (''parser'', Inr 3)]"

text \<open>A state in which every resource answers, as the loop may visit it.\<close>

definition all_ok_visit :: "(string \<times> (string + nat)) list" where
  "all_ok_visit = [(''kafka'', Inr 4), (''tcp'', Inr 1), (''parser'', Inr 3), (''udp'', Inr 2)]"

text \<open>
  Sample requests: one whose form parsed and holds the key pretty, one with no
  parameter, and one such as \<open>GET /diagnostics?pretty&a=%zz\<close>, for which \<open>ParseForm\<close>
  returns an error for the second parameter and leaves the first in the form. Sample
  marshallers: one that returns compact bytes, one that returns indented bytes, one that
  fails.
\<close>

definition pretty_request :: request where
  "pretty_request = \<lparr> ParseFormError = None, Form = [''pretty'' \<mapsto> [''0'']] \<rparr>"

definition plain_request :: request where
  "plain_request = \<lparr> ParseFormError = None, Form = Map.empty \<rparr>"

definition malformed_pretty_request :: request where
  "malformed_pretty_request =
     \<lparr> ParseFormError = Some ''invalid URL escape'', Form = [''pretty'' \<mapsto> ['''']] \<rparr>"

definition compact_json :: "(string \<rightharpoonup> 'v) \<Rightarrow> string + string" where
  "compact_json m = Inr ''{}''"

definition indented_json :: "(string \<rightharpoonup> 'v) \<Rightarrow> string + string" where
  "indented_json m = Inr [CHR ''{'', CHR 0x0A, CHR ''}'']"

definition failing_json :: "(string \<rightharpoonup> 'v) \<Rightarrow> string + string" where
  "failing_json m = Inl ''json: unsupported value''"

section \<open>Startup\<close>

text \<open>
  What the program writes: a line of the logger (\<open>log.Println\<close>), a formatted line of
  the logger (\<open>log.Printf\<close>, kept as the format and its arguments), a line on standard
  output (\<open>fmt.Println\<close>, kept as its operands), or the report of the Go runtime for a
  panic that nothing recovers.
\<close>

datatype fmt_arg = S string | D int | T bool

datatype emitted =
  Log string | Logf string "fmt_arg list" | Println "string list" | PanicReport string

text \<open>
  What the world answers to the calls of \<open>main\<close>. \<open>os.Hostname\<close> returns an error
  (\<open>Inl\<close>) or the name. \<open>http.ListenAndServe\<close> blocks for as long as the server runs;
  when it returns, it returns an error (the code also handles a nil error).
  \<open>output.NewKafkaProducer\<close> and the two \<open>StartChan\<close> return an error or nil; the other
  results of these calls play no part in the startup. \<open>make(chan string, n)\<close> panics when
  \<open>n\<close> is negative or larger than the runtime can allocate: \<open>makechan_limit\<close> is the
  largest capacity it accepts.
\<close>

datatype 'a call = Blocks | Returns 'a

record startup_env =
  os_Hostname :: "string + string"
  os_Getpid :: int
  runtime_NumCPU :: int
  http_ListenAndServe :: "string \<Rightarrow> string option call"
  NewKafkaProducer :: "string list \<Rightarrow> string \<Rightarrow> int \<Rightarrow> int \<Rightarrow> string option"
  TcpServer_StartChan :: "string \<Rightarrow> string option"
  UdpServer_StartChan :: "string \<Rightarrow> string option"
  makechan_limit :: int

text \<open>\<open>strings.Split(s, sep)\<close> for a separator of one character.\<close>

fun strings_Split :: "string \<Rightarrow> char \<Rightarrow> string list" where
  "strings_Split [] sep = [[]]"
| "strings_Split (c # cs) sep =
     (if c = sep then [] # strings_Split cs sep
      else (case strings_Split cs sep of
              [] \<Rightarrow> [[c]]
            | w # ws \<Rightarrow> (c # w) # ws))"

text \<open>
  A step of the program writes some lines and then goes on, calls \<open>os.Exit\<close>, panics,
  or blocks for ever. A panic that nothing recovers makes the runtime report it and exit
  with status 2. A program that runs off the end of \<open>main\<close> exits with status 0.
\<close>

datatype control = Continue | OsExit int | Panic string | Block

datatype outcome = Exit int | RunsForever

fun run :: "(emitted list \<times> control) list \<Rightarrow> emitted list \<times> outcome" where
  "run [] = ([], Exit 0)"
| "run ((out, OsExit code) # rest) = (out, Exit code)"
| "run ((out, Panic msg) # rest) = (out @ [PanicReport msg], Exit 2)"
| "run ((out, Block) # rest) = (out, RunsForever)"
| "run ((out, Continue) # rest) = (case run rest of (out', r) \<Rightarrow> (out @ out', r))"

definition determine_hostname :: "startup_env \<Rightarrow> emitted list \<times> control" where
  "determine_hostname env =
     (case os_Hostname env of
        Inl err \<Rightarrow> ([Log ''unable to determine hostname -- aborting''], OsExit 1)
      | Inr hostname \<Rightarrow>
          ([Logf ''syslog server starting on %s, PID %d'' [S hostname, D (os_Getpid env)],
            Logf ''machine has %d cores'' [D (runtime_NumCPU env)]], Continue))"

definition log_config :: "config \<Rightarrow> emitted list \<times> control" where
  "log_config c =
     ([Logf ''Admin server: %s'' [S (adminIface c)],
       Logf ''kafka brokers: %s'' [S (kBrokers c)],
       Logf ''kafka topic: %s'' [S (kTopic c)],
       Logf ''kafka batch size: %d'' [D (kBatch c)],
       Logf ''kafka buffer time: %dms'' [D (kBufferTime c)],
       Logf ''kafka buffer bytes: %d'' [D (kBufferBytes c)],
       Logf ''parsing enabled: %t'' [T (pEnabled c)],
       Logf ''channel buffering capacity: %d'' [D (cCapacity c)]], Continue)"

text \<open>
  The two channels, \<open>make(chan string, cCapacity)\<close> twice: any integer can be given as
  \<open>-chancap\<close>, and \<open>make\<close> panics on a capacity that is negative or too large. The
  parser stage that follows (\<open>input.NewRfc5424Parser()\<close>, and \<open>StreamingParse\<close> when
  parsing is enabled, whose error \<open>main\<close> never tests) has no exit in \<open>main\<close> and writes
  nothing.
\<close>

definition channels_made :: "config \<Rightarrow> startup_env \<Rightarrow> bool" where
  "channels_made c env = (0 \<le> cCapacity c \<and> cCapacity c \<le> makechan_limit env)"

definition make_channels :: "config \<Rightarrow> startup_env \<Rightarrow> emitted list \<times> control" where
  "make_channels c env =
     (if cCapacity c < 0 \<or> makechan_limit env < cCapacity c
      then ([], Panic ''runtime error: makechan: size out of range'')
      else ([], Continue))"

definition parser_stage :: "config \<Rightarrow> emitted list \<times> control" where
  "parser_stage c = ([], Continue)"

text \<open>
  The goroutine of the admin server, from the moment \<open>ListenAndServe\<close> returns. Its
  assignment to \<open>err\<close> and its test of \<open>err\<close> are one step here: the test reads the
  value just assigned.
\<close>

definition admin_server :: "config \<Rightarrow> startup_env \<Rightarrow> emitted list \<times> control" where
  "admin_server c env =
     (case http_ListenAndServe env (adminIface c) of
        Blocks \<Rightarrow> ([], Continue)
      | Returns (Some err) \<Rightarrow> ([Println [''Failed to start admin server'', err]], OsExit 1)
      | Returns None \<Rightarrow> ([Log ''Admin server started''], Continue))"

definition connect_kafka :: "config \<Rightarrow> startup_env \<Rightarrow> emitted list \<times> control" where
  "connect_kafka c env =
     (case NewKafkaProducer env (strings_Split (kBrokers c) CHR '','') (kTopic c)
             (kBufferTime c) (kBufferBytes c) of
        Some err \<Rightarrow> ([Println [''Failed to create Kafka producer'', err]], OsExit 1)
      | None \<Rightarrow> ([Logf ''connected to kafka at %s'' [S (kBrokers c)]], Continue))"

definition start_tcp :: "config \<Rightarrow> startup_env \<Rightarrow> emitted list \<times> control" where
  "start_tcp c env =
     (case TcpServer_StartChan env (tcpIface c) of
        Some err \<Rightarrow> ([Println [''Failed to start TCP server'', err]], OsExit 1)
      | None \<Rightarrow> ([Logf ''listening on %s for TCP connections'' [S (tcpIface c)]], Continue))"

definition start_udp :: "config \<Rightarrow> startup_env \<Rightarrow> emitted list \<times> control" where
  "start_udp c env =
     (case UdpServer_StartChan env (udpIface c) of
        Some err \<Rightarrow> ([Println [''Failed to start UDP server'', err]], OsExit 1)
      | None \<Rightarrow> ([Logf ''listening on %s for UDP packets'' [S (udpIface c)]], Continue))"

definition spin_forever :: "emitted list \<times> control" where
  "spin_forever = ([], Block)"

text \<open>
  \<open>main\<close> after \<open>flag.Parse()\<close>, with the configuration \<open>c\<close> the flags left. The admin
  server runs in a goroutine started after the channels and the parser stage are made;
  \<open>sched\<close> says when its \<open>ListenAndServe\<close> returns, if it does: before the broker
  connection (0), before the TCP server starts (1), before the UDP server starts (2), or
  once \<open>main\<close> waits in its empty \<open>select\<close> (3 and more).
\<close>

definition admin_server_at :: "nat \<Rightarrow> nat \<Rightarrow> config \<Rightarrow> startup_env \<Rightarrow> emitted list \<times> control" where
  "admin_server_at point sched c env = (if sched = point then admin_server c env else ([], Continue))"

definition admin_server_from :: "nat \<Rightarrow> nat \<Rightarrow> config \<Rightarrow> startup_env \<Rightarrow> emitted list \<times> control" where
  "admin_server_from point sched c env = (if point \<le> sched then admin_server c env else ([], Continue))"

definition main :: "config \<Rightarrow> startup_env \<Rightarrow> nat \<Rightarrow> emitted list \<times> outcome" where
  "main c env sched =
     run [determine_hostname env,
          log_config c,
          make_channels c env,
          parser_stage c,
          admin_server_at 0 sched c env,
          connect_kafka c env,
          admin_server_at 1 sched c env,
          start_tcp c env,
          admin_server_at 2 sched c env,
          start_udp c env,
          admin_server_from 3 sched c env,
          spin_forever]"

text \<open>
  The fatal startup conditions, as the specification lists them: hostname resolution
  failure, administrative server bind failure, broker connection failure, TCP or UDP
  bind failure. The diagnostics are the five lines the program writes before it exits.
\<close>

definition fatal_startup :: "config \<Rightarrow> startup_env \<Rightarrow> bool" where
  "fatal_startup c env =
     (isl (os_Hostname env) \<or>
      (case http_ListenAndServe env (adminIface c) of Returns (Some err) \<Rightarrow> True | _ \<Rightarrow> False) \<or>
      NewKafkaProducer env (strings_Split (kBrokers c) CHR '','') (kTopic c)
        (kBufferTime c) (kBufferBytes c) \<noteq> None \<or>
      TcpServer_StartChan env (tcpIface c) \<noteq> None \<or>
      UdpServer_StartChan env (udpIface c) \<noteq> None)"

fun is_diagnostic :: "emitted \<Rightarrow> bool" where
  "is_diagnostic (Log m) = (m = ''unable to determine hostname -- aborting'')"
| "is_diagnostic (Println [m, err]) =
     (m = ''Failed to start admin server'' \<or> m = ''Failed to create Kafka producer'' \<or>
      m = ''Failed to start TCP server'' \<or> m = ''Failed to start UDP server'')"
| "is_diagnostic _ = False"

text \<open>A sample world: the host has a name and the broker refuses the connection.\<close>

definition broker_refuses :: startup_env where
  "broker_refuses =
     \<lparr> os_Hostname = Inr ''edge1'', os_Getpid = 4711, runtime_NumCPU = 4,
       http_ListenAndServe = (\<lambda>addr. Blocks),
       NewKafkaProducer = (\<lambda>brokers topic bufferTime bufferBytes. Some ''connection refused''),
       TcpServer_StartChan = (\<lambda>iface. None),
       UdpServer_StartChan = (\<lambda>iface. None),
       makechan_limit = 1000000 \<rparr>"

text \<open>
  The program exits with status 1 after emitting a diagnostic: the last line written
  is one of the five. A step is orderly when it goes on, blocks, panics, or exits in
  this way.
\<close>

definition exits_after_diagnostic :: "emitted list \<times> outcome \<Rightarrow> bool" where
  "exits_after_diagnostic r = (snd r = Exit 1 \<and> fst r \<noteq> [] \<and> is_diagnostic (last (fst r)))"

definition orderly :: "emitted list \<times> control \<Rightarrow> bool" where
  "orderly s =
     (case snd s of
        Continue \<Rightarrow> True
      | Block \<Rightarrow> True
      | Panic msg \<Rightarrow> True
      | OsExit code \<Rightarrow> code = 1 \<and> fst s \<noteq> [] \<and> is_diagnostic (last (fst s)))"

text \<open>Two more sample worlds: everything starts, and the admin address is taken.\<close>

definition all_up :: startup_env where
  "all_up = broker_refuses \<lparr> NewKafkaProducer := (\<lambda>brokers topic bufferTime bufferBytes. None) \<rparr>"

definition admin_port_taken :: startup_env where
  "admin_port_taken = all_up \<lparr> http_ListenAndServe := (\<lambda>addr. Returns (Some ''address already in use'')) \<rparr>"

text \<open>A world in which the hostname cannot be determined, and the configuration of
  \<open>-chancap=-1\<close>.\<close>

definition no_hostname :: startup_env where
  "no_hostname = all_up \<lparr> os_Hostname := Inl ''no hostname'' \<rparr>"

definition negative_capacity :: config where
  "negative_capacity = init \<lparr> cCapacity := - 1 \<rparr>"

section \<open>The pipeline as wired by main\<close>

text \<open>
  A channel is seen as the sequence of messages sent over it. \<open>main\<close> makes the raw
  channel and the producer channel, creates the parser, and, when parsing is enabled,
  replaces the producer channel with the one \<open>parser.StreamingParse(rawChan)\<close> returns;
  otherwise it makes the producer channel the raw channel itself. The result is the
  parser (with its counters) and what arrives on the producer channel. The parser
  package is a parameter: \<open>new_parser\<close> is \<open>input.NewRfc5424Parser()\<close> and
  \<open>streaming_parse\<close> is the effect of \<open>StreamingParse\<close> on the parser and the messages.
\<close>

definition pipeline ::
  "bool \<Rightarrow> 'p \<Rightarrow> ('p \<Rightarrow> string list \<Rightarrow> 'p \<times> string list) \<Rightarrow> string list \<Rightarrow> 'p \<times> string list" where
  "pipeline enabled new_parser streaming_parse rawChan =
     (if enabled then streaming_parse new_parser rawChan
      else (new_parser, rawChan))"

text \<open>
  The producer is created by
  \<open>output.NewKafkaProducer(prodChan, strings.Split(kBrokers, ","), kTopic, kBufferTime, kBufferBytes)\<close>.
  Whatever the producer does with the messages it reads (\<open>new_producer\<close>, a parameter:
  the package is not among the sources), it is a function of these five arguments.
\<close>

definition start_producer ::
  "('i \<Rightarrow> string list \<Rightarrow> string \<Rightarrow> int \<Rightarrow> int \<Rightarrow> 'o) \<Rightarrow> config \<Rightarrow> 'i \<Rightarrow> 'o" where
  "start_producer new_producer c prodChan =
     new_producer prodChan (strings_Split (kBrokers c) CHR '','') (kTopic c)
       (kBufferTime c) (kBufferBytes c)"

text \<open>
  What the producer is given in the scenario of the specification: three short items
  arriving within two milliseconds, watched for ten milliseconds. With the default
  thresholds (1000 ms, 524288 bytes) neither the time nor the size trigger is due. The
  specification asks for exactly one flush of the three items when kBatch is 3, and,
  a flush occurring only if a trigger holds, for no flush when kBatch is 10.
\<close>

record timed_items =
  arrivals :: "(nat \<times> string) list"
  watched_until :: nat

definition three_quick_items :: timed_items where
  "three_quick_items = \<lparr> arrivals = [(0, ''a''), (1, ''b''), (2, ''c'')], watched_until = 10 \<rparr>"

definition count_trigger_scenario ::
  "(timed_items \<Rightarrow> string list \<Rightarrow> string \<Rightarrow> int \<Rightarrow> int \<Rightarrow> string list list) \<Rightarrow> bool" where
  "count_trigger_scenario new_producer =
     (start_producer new_producer (init\<lparr>kBatch := 3\<rparr>) three_quick_items = [[''a'', ''b'', ''c'']] \<and>
      start_producer new_producer init three_quick_items = [])"

section \<open>The header parser\<close>

text \<open>
  Modelled from the spec: the package \<open>input\<close> with the type \<open>Rfc5424Parser\<close> is not
  among the sources. The reason a message failed to parse: the specification names a
  missing field, a malformed PRI and an unterminated structured-data bracket; a
  bracketed element that is closed but not of the form \<open>[SD-ID param="value" ...]\<close> is
  the fourth structural violation.
\<close>

datatype parse_failure =
  MissingField | MalformedPri | UnterminatedStructuredData | MalformedStructuredData

text \<open>
  Modelled from the spec: one element \<open>[SD-ID param="value" ...]\<close> of the structured
  data, its SD-ID and its parameters in order (\<open>input\<close> is missing).
\<close>

datatype sd_element = SdElement string "(string \<times> string) list"

text \<open>
  Modelled from the spec: the structured record of a parsed message (\<open>input\<close> is
  missing): facility and severity, protocol version, timestamp, hostname, application
  name, process id, message id, structured data and free-text body. A field written as
  the NILVALUE \<open>-\<close> is \<open>None\<close>; absent structured data is the empty sequence.
\<close>

record structured =
  facility :: nat
  severity :: nat
  protocol_version :: string
  timestamp :: "string option"
  hostname :: "string option"
  app_name :: "string option"
  proc_id :: "string option"
  msg_id :: "string option"
  structured_data :: "sd_element list"
  message_body :: string

text \<open>
  Modelled from the spec: the ParsedMessage of the data model (\<open>input\<close> is missing),
  either a structured record or the original message unchanged, tagged with the reason
  of the failure.
\<close>

datatype ParsedMessage = Structured structured | Passthrough string parse_failure

text \<open>Modelled from the spec: the decimal digits and their values, for the PRI (\<open>input\<close>
  is missing).\<close>

definition decimal_digits :: "(char \<times> nat) list" where
  "decimal_digits =
     [(CHR ''0'', 0), (CHR ''1'', 1), (CHR ''2'', 2), (CHR ''3'', 3), (CHR ''4'', 4),
      (CHR ''5'', 5), (CHR ''6'', 6), (CHR ''7'', 7), (CHR ''8'', 8), (CHR ''9'', 9)]"

text \<open>Modelled from the spec: the value of a decimal digit, \<open>None\<close> for any other
  character (\<open>input\<close> is missing).\<close>

definition digit_of :: "char \<Rightarrow> nat option" where
  "digit_of c = map_of decimal_digits c"

text \<open>Modelled from the spec: the number a string of decimal digits denotes, read from
  the left (\<open>input\<close> is missing).\<close>

fun decimal :: "string \<Rightarrow> nat \<Rightarrow> nat option" where
  "decimal [] acc = Some acc"
| "decimal (c # cs) acc =
     (case digit_of c of None \<Rightarrow> None | Some d \<Rightarrow> decimal cs (10 * acc + d))"

text \<open>Modelled from the spec: a decimal number of one digit or more (\<open>input\<close> is
  missing).\<close>

definition parse_nat :: "string \<Rightarrow> nat option" where
  "parse_nat s = (if s = [] then None else decimal s 0)"

text \<open>
  Modelled from the spec: splitting at a delimiter (\<open>input\<close> is missing). The text
  before the first delimiter and the text after it, or \<open>None\<close> without a delimiter.
\<close>

fun take_until :: "char \<Rightarrow> string \<Rightarrow> (string \<times> string) option" where
  "take_until d [] = None"
| "take_until d (c # cs) =
     (if c = d then Some ([], cs)
      else (case take_until d cs of None \<Rightarrow> None | Some (t, r) \<Rightarrow> Some (c # t, r)))"

text \<open>Modelled from the spec: sequencing of parsing steps that may fail (\<open>input\<close> is missing).\<close>

definition and_then :: "'e + 'a \<Rightarrow> ('a \<Rightarrow> 'e + 'b) \<Rightarrow> 'e + 'b" where
  "and_then r f = (case r of Inl e \<Rightarrow> Inl e | Inr x \<Rightarrow> f x)"

text \<open>
  Modelled from the spec: the PRI \<open><digits>\<close> that starts a message (\<open>input\<close> is
  missing). The result is the priority and the text after \<open>>\<close>.
\<close>

definition parse_pri :: "string \<Rightarrow> parse_failure + (nat \<times> string)" where
  "parse_pri s =
     (case s of
        [] \<Rightarrow> Inl MalformedPri
      | c # s1 \<Rightarrow>
          if c \<noteq> CHR ''<'' then Inl MalformedPri
          else (case take_until CHR ''>'' s1 of
                  None \<Rightarrow> Inl MalformedPri
                | Some (digits, rest) \<Rightarrow>
                    (case parse_nat digits of
                       None \<Rightarrow> Inl MalformedPri
                     | Some p \<Rightarrow> Inr (p, rest))))"

text \<open>
  Modelled from the spec: a field followed by a space (\<open>input\<close> is missing). A field
  that is empty or has no space after it is missing.
\<close>

definition take_field :: "string \<Rightarrow> parse_failure + (string \<times> string)" where
  "take_field s =
     (case take_until CHR '' '' s of
        None \<Rightarrow> Inl MissingField
      | Some (t, r) \<Rightarrow> if t = [] then Inl MissingField else Inr (t, r))"

text \<open>Modelled from the spec: the NILVALUE token \<open>-\<close> stands for an absent field
  (\<open>input\<close> is missing).\<close>

definition nilvalue :: "string \<Rightarrow> string option" where
  "nilvalue t = (if t = ''-'' then None else Some t)"

text \<open>
  Modelled from the spec: the structured data, a sequence of bracketed elements
  \<open>[SD-ID param="value" ...]\<close> with escaped characters inside the quoted values (\<open>input\<close>
  is missing). The scanner reads one character at a time; its state says where in an
  element it is and holds what it has read of the element: the SD-ID, the parameters,
  the name and the value being read.
\<close>

datatype sd_state =
  InId string
| InName string "(string \<times> string) list" string
| BeforeValue string "(string \<times> string) list" string
| InValue string "(string \<times> string) list" string string
| Escaped string "(string \<times> string) list" string string
| AfterValue string "(string \<times> string) list"
| AfterElement

text \<open>
  Modelled from the spec: the scanner of structured data (\<open>input\<close> is missing). The
  text ending inside a bracket is the unterminated bracket. After a closing bracket
  another element may start; anything else ends the structured data and is returned
  with the elements read.
\<close>

fun sd_scan ::
  "sd_state \<Rightarrow> sd_element list \<Rightarrow> string \<Rightarrow> parse_failure + (sd_element list \<times> string)" where
  "sd_scan AfterElement els [] = Inr (els, [])"
| "sd_scan st els [] = Inl UnterminatedStructuredData"
| "sd_scan AfterElement els (c # cs) =
     (if c = CHR ''['' then sd_scan (InId []) els cs else Inr (els, c # cs))"
| "sd_scan (InId i) els (c # cs) =
     (if c = CHR '']'' then
        (if i = [] then Inl MalformedStructuredData
         else sd_scan AfterElement (els @ [SdElement i []]) cs)
      else if c = CHR '' '' then
        (if i = [] then Inl MalformedStructuredData else sd_scan (InName i [] []) els cs)
      else sd_scan (InId (i @ [c])) els cs)"
| "sd_scan (InName i ps n) els (c # cs) =
     (if c = CHR ''='' then
        (if n = [] then Inl MalformedStructuredData else sd_scan (BeforeValue i ps n) els cs)
      else if c = CHR '']'' \<or> c = CHR '' '' then Inl MalformedStructuredData
      else sd_scan (InName i ps (n @ [c])) els cs)"
| "sd_scan (BeforeValue i ps n) els (c # cs) =
     (if c = CHR 0x22 then sd_scan (InValue i ps n []) els cs
      else Inl MalformedStructuredData)"
| "sd_scan (InValue i ps n v) els (c # cs) =
     (if c = CHR 0x5C then sd_scan (Escaped i ps n v) els cs
      else if c = CHR 0x22 then sd_scan (AfterValue i (ps @ [(n, v)])) els cs
      else sd_scan (InValue i ps n (v @ [c])) els cs)"
| "sd_scan (Escaped i ps n v) els (c # cs) = sd_scan (InValue i ps n (v @ [c])) els cs"
| "sd_scan (AfterValue i ps) els (c # cs) =
     (if c = CHR '']'' then sd_scan AfterElement (els @ [SdElement i ps]) cs
      else if c = CHR '' '' then sd_scan (InName i ps []) els cs
      else Inl MalformedStructuredData)"

text \<open>
  Modelled from the spec: the STRUCTURED-DATA field (\<open>input\<close> is missing): the
  NILVALUE, or one bracketed element or more. A message that ends before the field, or
  has something else in its place, misses the field.
\<close>

definition parse_structured_data :: "string \<Rightarrow> parse_failure + (sd_element list \<times> string)" where
  "parse_structured_data s =
     (case s of
        [] \<Rightarrow> Inl MissingField
      | c # cs \<Rightarrow>
          if c = CHR ''-'' then Inr ([], cs)
          else if c = CHR ''['' then sd_scan (InId []) [] cs
          else Inl MissingField)"

text \<open>
  Modelled from the spec: the optional \<open>[SP MSG]\<close> that ends a message (\<open>input\<close> is
  missing): nothing, or a space and the free-text body.
\<close>

definition parse_msg :: "string \<Rightarrow> parse_failure + string" where
  "parse_msg s =
     (case s of
        [] \<Rightarrow> Inr []
      | c # cs \<Rightarrow> if c = CHR '' '' then Inr cs else Inl MissingField)"

text \<open>
  Modelled from the spec: the RFC5424 decomposition of one message,
  \<open><PRI>VERSION SP TIMESTAMP SP HOSTNAME SP APP-NAME SP PROCID SP MSGID SP STRUCTURED-DATA [SP MSG]\<close>,
  left to right (the parser of \<open>input\<close> is missing). The PRI is decomposed into
  facility = priority / 8 and severity = priority mod 8.
\<close>

definition parse_rfc5424 :: "string \<Rightarrow> parse_failure + structured" where
  "parse_rfc5424 raw =
     and_then (parse_pri raw) (\<lambda>(priority, s0).
     and_then (take_field s0) (\<lambda>(ver, s1).
     and_then (take_field s1) (\<lambda>(ts, s2).
     and_then (take_field s2) (\<lambda>(host, s3).
     and_then (take_field s3) (\<lambda>(app, s4).
     and_then (take_field s4) (\<lambda>(procid, s5).
     and_then (take_field s5) (\<lambda>(msgid, s6).
     and_then (parse_structured_data s6) (\<lambda>(sd, s7).
     and_then (parse_msg s7) (\<lambda>msg.
       Inr \<lparr> facility = priority div 8, severity = priority mod 8,
             protocol_version = ver, timestamp = nilvalue ts, hostname = nilvalue host,
             app_name = nilvalue app, proc_id = nilvalue procid, msg_id = nilvalue msgid,
             structured_data = sd, message_body = msg \<rparr>)))))))))"

text \<open>
  Modelled from the spec: what the parser emits for one message (\<open>input\<close> is missing):
  the structured record on success, the original message tagged with the reason on
  failure.
\<close>

definition parse_message :: "string \<Rightarrow> ParsedMessage" where
  "parse_message raw =
     (case parse_rfc5424 raw of
        Inr m \<Rightarrow> Structured m
      | Inl reason \<Rightarrow> Passthrough raw reason)"

text \<open>
  Modelled from the spec: the counters the parser exposes (\<open>Rfc5424Parser\<close> is missing):
  processed, parse successes, parse errors.
\<close>

record parser_counters =
  processed :: nat
  parse_successes :: nat
  parse_errors :: nat

text \<open>Modelled from the spec: a new parser (\<open>NewRfc5424Parser\<close> is missing); its counters
  are totals since the start, so all are zero.\<close>

definition NewRfc5424Parser :: parser_counters where
  "NewRfc5424Parser = \<lparr> processed = 0, parse_successes = 0, parse_errors = 0 \<rparr>"

text \<open>
  Modelled from the spec: the parser taking one message from the raw queue
  (\<open>StreamingParse\<close> is missing): it counts the message as processed and as a success or
  an error, and emits its ParsedMessage.
\<close>

definition parse_one :: "parser_counters \<Rightarrow> string \<Rightarrow> parser_counters \<times> ParsedMessage" where
  "parse_one p raw =
     (case parse_message raw of
        Structured m \<Rightarrow>
          (p\<lparr>processed := processed p + 1, parse_successes := parse_successes p + 1\<rparr>,
           Structured m)
      | Passthrough original reason \<Rightarrow>
          (p\<lparr>processed := processed p + 1, parse_errors := parse_errors p + 1\<rparr>,
           Passthrough original reason))"

text \<open>
  Modelled from the spec: the parser draining the raw queue in Enabled mode
  (\<open>StreamingParse\<close> is missing): the messages are taken in order, and what is emitted
  is pushed to the parsed queue in the same order.
\<close>

fun StreamingParse :: "parser_counters \<Rightarrow> string list \<Rightarrow> parser_counters \<times> ParsedMessage list" where
  "StreamingParse p [] = (p, [])"
| "StreamingParse p (raw # raws) =
     (case parse_one p raw of
        (p', m) \<Rightarrow> (case StreamingParse p' raws of (p'', ms) \<Rightarrow> (p'', m # ms)))"

text \<open>
  Modelled from the spec: the text of a ParsedMessage on the producer channel (the
  serialisation of \<open>input\<close> is missing): the body of a structured record, the original
  text of a passthrough.
\<close>

definition wire_text :: "ParsedMessage \<Rightarrow> string" where
  "wire_text m = (case m of Structured r \<Rightarrow> message_body r | Passthrough original reason \<Rightarrow> original)"

text \<open>Modelled from the spec: \<open>StreamingParse\<close> as \<open>main\<close> calls it, from a channel of
  strings to a channel of strings (\<open>StreamingParse\<close> is missing).\<close>

definition StreamingParse_text :: "parser_counters \<Rightarrow> string list \<Rightarrow> parser_counters \<times> string list" where
  "StreamingParse_text p raws = (case StreamingParse p raws of (p', ms) \<Rightarrow> (p', map wire_text ms))"

text \<open>The example line of the specification, and two malformed lines.\<close>

definition example_line :: string where
  "example_line = ''<34>1 2021-03-01T12:00:00Z host1 app1 123 ID47 - message body''"

definition no_pri_line :: string where
  "no_pri_line = ''hello world''"

definition open_bracket_line :: string where
  "open_bracket_line = ''<34>1 2021-03-01T12:00:00Z host1 app1 123 ID47 [a b='' @ [CHR 0x22] @ ''c''"

text \<open>Modelled from the spec: telling the passthrough variant from the structured one
  (\<open>input\<close> is missing).\<close>

definition is_passthrough :: "ParsedMessage \<Rightarrow> bool" where
  "is_passthrough m = (case m of Passthrough original reason \<Rightarrow> True | Structured r \<Rightarrow> False)"

section \<open>Configuration defaults\<close>

text \<open>
  Claim C6. When no command-line flag is supplied, parsing succeeds and every option has
  the default of the specification's table: admin bind address localhost:8080, TCP and
  UDP bind address localhost:514, broker list localhost:9092, topic logs, batch size 10,
  maximal buffer time 1000 ms, maximal buffer size 524288 bytes, parsing enabled, queue
  capacity 0.
\<close>

theorem defaults_without_flags:
  "flag_Parse [] init =
     Some \<lparr> adminIface = ''localhost:8080'', tcpIface = ''localhost:514'',
            udpIface = ''localhost:514'', kBrokers = ''localhost:9092'', kBatch = 10,
            kTopic = ''logs'', kBufferTime = 1000, kBufferBytes = 524288,
            pEnabled = True, cCapacity = 0 \<rparr>"
  by (simp add: init_def adminHost_def connTcpHost_def connUdpHost_def kafkaBrokers_def
      kafkaBatch_def kafkaTopic_def kafkaBufferTime_def kafkaBufferBytes_def
      parseEnabled_def chanCapacity_def)

section \<open>The statistics endpoint\<close>

lemma range_resources_fails:
  "(k, Inl e) \<in> set kvs \<Longrightarrow>
   \<exists>k' e'. (k', Inl e') \<in> set kvs \<and> range_resources kvs m = Inl k'"
proof (induction kvs arbitrary: m)
  case Nil
  then show ?case by simp
next
  case (Cons kv kvs)
  obtain k0 v0 where kv: "kv = (k0, v0)" by (cases kv)
  show ?case
  proof (cases v0)
    case (Inl e0)
    with kv show ?thesis by auto
  next
    case (Inr s)
    with kv Cons.prems have "(k, Inl e) \<in> set kvs" by auto
    from Cons.IH [OF this, of "m(k0 \<mapsto> s)"]
    obtain k' e' where "(k', Inl e') \<in> set kvs" "range_resources kvs (m(k0 \<mapsto> s)) = Inl k'"
      by blast
    then have "(k', Inl e') \<in> set (kv # kvs)" "range_resources (kv # kvs) m = Inl k'"
      using kv Inr by simp_all
    then show ?thesis by blast
  qed
qed

lemma range_resources_succeeds:
  "distinct (map fst kvs) \<Longrightarrow> \<forall>k e. (k, Inl e) \<notin> set kvs \<Longrightarrow>
   range_resources kvs m = Inr (m ++ snapshots (map_of kvs))"
proof (induction kvs arbitrary: m)
  case Nil
  then show ?case by (simp add: snapshots_def)
next
  case (Cons kv kvs)
  obtain k0 v0 where kv: "kv = (k0, v0)" by (cases kv)
  from Cons.prems kv obtain s where s: "v0 = Inr s" by (cases v0) auto
  from Cons.prems kv have d: "distinct (map fst kvs)" and n: "k0 \<notin> fst ` set kvs"
    and f: "\<forall>k e. (k, Inl e) \<notin> set kvs" by auto
  from n have none: "map_of kvs k0 = None" by (simp add: map_of_eq_None_iff)
  have "range_resources (kv # kvs) m = range_resources kvs (m(k0 \<mapsto> s))"
    using kv s by simp
  also have "\<dots> = Inr (m(k0 \<mapsto> s) ++ snapshots (map_of kvs))"
    by (rule Cons.IH [OF d f])
  also have "m(k0 \<mapsto> s) ++ snapshots (map_of kvs) = m ++ snapshots (map_of (kv # kvs))"
    using none kv s
    by (auto simp: snapshots_def map_add_def fun_eq_iff split: option.splits sum.splits)
  finally show ?case .
qed

lemma resources_dom: "dom (resources g) = {''tcp'', ''udp'', ''parser'', ''kafka''}"
  by (auto simp: resources_def)

lemma snapshots_resources:
  "tcpServer g = Inr a \<Longrightarrow> udpServer g = Inr b \<Longrightarrow> parser g = Inr c \<Longrightarrow> kafka g = Inr d \<Longrightarrow>
   snapshots (resources g) = [''tcp'' \<mapsto> a, ''udp'' \<mapsto> b, ''parser'' \<mapsto> c, ''kafka'' \<mapsto> d]"
  by (auto simp: snapshots_def resources_def fun_eq_iff)

lemma http_Error_fresh:
  "http_Error fresh_writer msg code = \<lparr> statusCode = Some code, body = msg @ [CHR 0x0A] \<rparr>"
  by (simp add: http_Error_def Write_def WriteHeader_def fresh_writer_def)

lemma Write_fresh: "Write b fresh_writer = \<lparr> statusCode = Some 200, body = b \<rparr>"
  by (simp add: Write_def WriteHeader_def fresh_writer_def StatusOK_def)

text \<open>
  Claim C2. The loop visits the four resources in some order (each once). When all four
  \<open>GetStatistics\<close> calls succeed, the handler marshals one map holding the four
  snapshots under the keys tcp, udp, parser and kafka, and answers 200 with the bytes
  (or 500 when marshalling fails). When any resource fails, the handler answers 500
  with the message naming a failed resource, and writes nothing else: no statistics.
\<close>

theorem ServeStatistics_merges_or_fails:
  assumes "distinct (map fst visited)" and "map_of visited = resources g"
  shows
    "(tcpServer g = Inr a \<and> udpServer g = Inr b \<and> parser g = Inr c \<and> kafka g = Inr d \<longrightarrow>
        ServeStatistics Marshal MarshalIndent visited fresh_writer req =
          (case (if fst (isPretty req) then MarshalIndent else Marshal)
                  [''tcp'' \<mapsto> a, ''udp'' \<mapsto> b, ''parser'' \<mapsto> c, ''kafka'' \<mapsto> d] of
             Inr bytes \<Rightarrow> ([], \<lparr> statusCode = Some 200, body = bytes \<rparr>)
           | Inl err \<Rightarrow>
               ([''failed to JSON marshal statistics map''],
                \<lparr> statusCode = Some 500,
                  body = ''failed to JSON marshal statistics map'' @ [CHR 0x0A] \<rparr>))) \<and>
     ((\<exists>k e. resources g k = Some (Inl e)) \<longrightarrow>
        (\<exists>k e. resources g k = Some (Inl e) \<and>
           ServeStatistics Marshal MarshalIndent visited fresh_writer req =
             ([''failed to get '' @ k @ '' stats''],
              \<lparr> statusCode = Some 500, body = ''failed to get '' @ k @ '' stats'' @ [CHR 0x0A] \<rparr>)))"
proof (intro conjI impI)
  assume ok: "tcpServer g = Inr a \<and> udpServer g = Inr b \<and> parser g = Inr c \<and> kafka g = Inr d"
  have "\<forall>k e. (k, Inl e) \<notin> set visited"
  proof (intro allI notI)
    fix k e assume "(k, Inl e) \<in> set visited"
    with assms have "resources g k = Some (Inl e)" by (metis map_of_is_SomeI)
    with ok show False by (auto simp: resources_def split: if_splits)
  qed
  with assms have "range_resources visited Map.empty = Inr (snapshots (resources g))"
    by (simp add: range_resources_succeeds)
  also have "snapshots (resources g) = [''tcp'' \<mapsto> a, ''udp'' \<mapsto> b, ''parser'' \<mapsto> c, ''kafka'' \<mapsto> d]"
    using ok by (simp add: snapshots_resources)
  finally have r: "range_resources visited Map.empty =
      Inr [''tcp'' \<mapsto> a, ''udp'' \<mapsto> b, ''parser'' \<mapsto> c, ''kafka'' \<mapsto> d]" .
  show "ServeStatistics Marshal MarshalIndent visited fresh_writer req =
          (case (if fst (isPretty req) then MarshalIndent else Marshal)
                  [''tcp'' \<mapsto> a, ''udp'' \<mapsto> b, ''parser'' \<mapsto> c, ''kafka'' \<mapsto> d] of
             Inr bytes \<Rightarrow> ([], \<lparr> statusCode = Some 200, body = bytes \<rparr>)
           | Inl err \<Rightarrow>
               ([''failed to JSON marshal statistics map''],
                \<lparr> statusCode = Some 500,
                  body = ''failed to JSON marshal statistics map'' @ [CHR 0x0A] \<rparr>))"
    unfolding ServeStatistics_def r
    by (simp add: http_Error_fresh Write_fresh StatusInternalServerError_def
        split: prod.splits sum.splits)
next
  assume "\<exists>k e. resources g k = Some (Inl e)"
  then obtain k e where "resources g k = Some (Inl e)" by blast
  with assms have "(k, Inl e) \<in> set visited" by (metis map_of_SomeD)
  from range_resources_fails [OF this, of Map.empty]
  obtain k' e' where k': "(k', Inl e') \<in> set visited"
    and r: "range_resources visited Map.empty = Inl k'" by blast
  from k' assms have "resources g k' = Some (Inl e')" by (metis map_of_is_SomeI)
  moreover have "ServeStatistics Marshal MarshalIndent visited fresh_writer req =
      ([''failed to get '' @ k' @ '' stats''],
       \<lparr> statusCode = Some 500, body = ''failed to get '' @ k' @ '' stats'' @ [CHR 0x0A] \<rparr>)"
    unfolding ServeStatistics_def r
    by (simp add: http_Error_fresh StatusInternalServerError_def)
  ultimately show "\<exists>k e. resources g k = Some (Inl e) \<and>
           ServeStatistics Marshal MarshalIndent visited fresh_writer req =
             ([''failed to get '' @ k @ '' stats''],
              \<lparr> statusCode = Some 500, body = ''failed to get '' @ k @ '' stats'' @ [CHR 0x0A] \<rparr>)"
    by blast
qed

theorem ServeStatistics_merges_or_fails_witness:
  "distinct (map fst kafka_down_visit) \<and> map_of kafka_down_visit = resources kafka_down \<and>
   (\<exists>k e. resources kafka_down k = Some (Inl e)) \<and>
   (\<exists>k e. resources kafka_down k = Some (Inl e) \<and>
      ServeStatistics (\<lambda>m. Inr ''{}'') (\<lambda>m. Inr ''{ }'') kafka_down_visit fresh_writer
          \<lparr> ParseFormError = None, Form = Map.empty \<rparr> =
        ([''failed to get '' @ k @ '' stats''],
         \<lparr> statusCode = Some 500, body = ''failed to get '' @ k @ '' stats'' @ [CHR 0x0A] \<rparr>))"
proof -
  have d: "distinct (map fst kafka_down_visit)" by (simp add: kafka_down_visit_def)
  have m: "map_of kafka_down_visit = resources kafka_down"
    by (auto simp: kafka_down_visit_def resources_def kafka_down_def fun_eq_iff)
  have f: "\<exists>k e. resources kafka_down k = Some (Inl e)"
    by (rule exI [of _ "''kafka''"]) (simp add: resources_def kafka_down_def)
  from ServeStatistics_merges_or_fails [OF d m] d m f show ?thesis by blast
qed

section \<open>Pretty-printing and form errors\<close>

lemma isPretty_iff:
  "fst (isPretty req) \<longleftrightarrow> ParseFormError req = None \<and> ''pretty'' \<in> dom (Form req)"
  by (auto simp: isPretty_def split: option.splits)

text \<open>
  Claim C8, as stated, fails: a request can carry the parameter pretty, have it in its
  form, and still be answered in compact JSON, because \<open>isPretty\<close> returns false
  whenever \<open>ParseForm\<close> returns an error.
\<close>

theorem pretty_parameter_ignored_on_parse_error:
  "''pretty'' \<in> dom (Form malformed_pretty_request) \<and>
   \<not> fst (isPretty malformed_pretty_request) \<and>
   snd (ServeDiagnostics compact_json indented_json ''t0'' ''1s'' fresh_writer malformed_pretty_request) =
     \<lparr> statusCode = Some 200, body = ''{}'' \<rparr>"
  by (simp add: malformed_pretty_request_def isPretty_def ServeDiagnostics_def
      compact_json_def bytes_ignoring_error_def Write_fresh)

text \<open>
  Claim C8, amended. \<open>isPretty\<close> returns true if and only if \<open>ParseForm\<close> returned no
  error and the form holds the key pretty (whatever its values). Exactly then both
  handlers behave as if only the indenting marshaller existed; otherwise they behave as
  if only the compact one did.
\<close>

theorem pretty_iff_form_parsed_with_pretty:
  "(fst (isPretty req) \<longleftrightarrow> ParseFormError req = None \<and> ''pretty'' \<in> dom (Form req)) \<and>
   ServeStatistics Marshal MarshalIndent visited w req =
     (if ParseFormError req = None \<and> ''pretty'' \<in> dom (Form req)
      then ServeStatistics MarshalIndent MarshalIndent visited w req
      else ServeStatistics Marshal Marshal visited w req) \<and>
   ServeDiagnostics Marshal' MarshalIndent' started uptime w req =
     (if ParseFormError req = None \<and> ''pretty'' \<in> dom (Form req)
      then ServeDiagnostics MarshalIndent' MarshalIndent' started uptime w req
      else ServeDiagnostics Marshal' Marshal' started uptime w req)"
proof (intro conjI)
  show "fst (isPretty req) \<longleftrightarrow> ParseFormError req = None \<and> ''pretty'' \<in> dom (Form req)"
    by (rule isPretty_iff)
  show "ServeStatistics Marshal MarshalIndent visited w req =
     (if ParseFormError req = None \<and> ''pretty'' \<in> dom (Form req)
      then ServeStatistics MarshalIndent MarshalIndent visited w req
      else ServeStatistics Marshal Marshal visited w req)"
    unfolding isPretty_iff [symmetric]
    by (cases "isPretty req") (simp add: ServeStatistics_def Let_def split: sum.splits)
  show "ServeDiagnostics Marshal' MarshalIndent' started uptime w req =
     (if ParseFormError req = None \<and> ''pretty'' \<in> dom (Form req)
      then ServeDiagnostics MarshalIndent' MarshalIndent' started uptime w req
      else ServeDiagnostics Marshal' Marshal' started uptime w req)"
    unfolding isPretty_iff [symmetric]
    by (cases "isPretty req") (simp add: ServeDiagnostics_def Let_def)
qed

theorem pretty_iff_form_parsed_with_pretty_witness:
  "fst (isPretty pretty_request) \<and>
   snd (ServeDiagnostics compact_json indented_json ''t0'' ''1s'' fresh_writer pretty_request) =
     \<lparr> statusCode = Some 200, body = [CHR ''{'', CHR 0x0A, CHR ''}''] \<rparr> \<and>
   snd (ServeDiagnostics compact_json indented_json ''t0'' ''1s'' fresh_writer malformed_pretty_request) =
     \<lparr> statusCode = Some 200, body = ''{}'' \<rparr>"
  using pretty_iff_form_parsed_with_pretty [of pretty_request compact_json indented_json kafka_down_visit fresh_writer
      compact_json indented_json "''t0''" "''1s''"]
    pretty_iff_form_parsed_with_pretty [of malformed_pretty_request compact_json indented_json kafka_down_visit fresh_writer
      compact_json indented_json "''t0''" "''1s''"]
  by (simp add: pretty_request_def malformed_pretty_request_def ServeDiagnostics_def
      compact_json_def indented_json_def bytes_ignoring_error_def Write_fresh)

text \<open>
  Claim C10. The diagnostics handler always answers 200 and logs nothing. For a request
  whose form failed to parse, the error is dropped and the body is compact: the
  diagnostics handler writes what the compact marshaller returns, the statistics handler
  never uses the indenting marshaller and, when the resources answer and the compact
  marshaller succeeds, writes its bytes with status 200; both answer exactly as for a
  request with an empty, well-parsed form. When both marshallers fail on the
  diagnostics map, the handler still answers 200, with an empty body.
\<close>

theorem form_error_discarded:
  "statusCode (snd (ServeDiagnostics Marshal' MarshalIndent' started uptime fresh_writer req)) = Some 200 \<and>
   fst (ServeDiagnostics Marshal' MarshalIndent' started uptime w req) = [] \<and>
   (ParseFormError req \<noteq> None \<longrightarrow>
      ServeDiagnostics Marshal' MarshalIndent' started uptime fresh_writer req =
        ([], \<lparr> statusCode = Some 200,
               body = bytes_ignoring_error
                        (Marshal' [''started'' \<mapsto> started, ''uptime'' \<mapsto> uptime]) \<rparr>) \<and>
      ServeStatistics Marshal MarshalIndent visited w req =
        ServeStatistics Marshal Marshal visited w req \<and>
      ServeDiagnostics Marshal' MarshalIndent' started uptime w req =
        ServeDiagnostics Marshal' MarshalIndent' started uptime w plain_request \<and>
      ServeStatistics Marshal MarshalIndent visited w req =
        ServeStatistics Marshal MarshalIndent visited w plain_request) \<and>
   (ParseFormError req \<noteq> None \<and> range_resources visited Map.empty = Inr statistics \<and>
    Marshal statistics = Inr b \<longrightarrow>
      ServeStatistics Marshal MarshalIndent visited fresh_writer req =
        ([], \<lparr> statusCode = Some 200, body = b \<rparr>)) \<and>
   ((\<exists>e. Marshal' [''started'' \<mapsto> started, ''uptime'' \<mapsto> uptime] = Inl e) \<and>
    (\<exists>e. MarshalIndent' [''started'' \<mapsto> started, ''uptime'' \<mapsto> uptime] = Inl e) \<longrightarrow>
      ServeDiagnostics Marshal' MarshalIndent' started uptime fresh_writer req =
        ([], \<lparr> statusCode = Some 200, body = [] \<rparr>))"
  by (auto simp: ServeDiagnostics_def ServeStatistics_def isPretty_def plain_request_def
      Write_fresh bytes_ignoring_error_def Write_def WriteHeader_def fresh_writer_def StatusOK_def
      split: prod.splits sum.splits option.splits)

theorem form_error_discarded_witness:
  "ParseFormError malformed_pretty_request \<noteq> None \<and>
   ServeDiagnostics compact_json indented_json ''t0'' ''1s'' fresh_writer malformed_pretty_request =
     ([], \<lparr> statusCode = Some 200, body = ''{}'' \<rparr>) \<and>
   ServeStatistics compact_json indented_json all_ok_visit fresh_writer malformed_pretty_request =
     ([], \<lparr> statusCode = Some 200, body = ''{}'' \<rparr>) \<and>
   ServeStatistics compact_json indented_json all_ok_visit fresh_writer pretty_request =
     ([], \<lparr> statusCode = Some 200, body = [CHR ''{'', CHR 0x0A, CHR ''}''] \<rparr>) \<and>
   ServeDiagnostics failing_json failing_json ''t0'' ''1s'' fresh_writer pretty_request =
     ([], \<lparr> statusCode = Some 200, body = [] \<rparr>)"
proof -
  have e: "ParseFormError malformed_pretty_request \<noteq> None"
    by (simp add: malformed_pretty_request_def)
  have d: "ServeDiagnostics compact_json indented_json ''t0'' ''1s'' fresh_writer
             malformed_pretty_request = ([], \<lparr> statusCode = Some 200, body = ''{}'' \<rparr>)"
    using form_error_discarded [of compact_json indented_json "''t0''" "''1s''"
        malformed_pretty_request fresh_writer compact_json indented_json
        all_ok_visit "[''kafka'' \<mapsto> 4, ''tcp'' \<mapsto> 1, ''parser'' \<mapsto> 3, ''udp'' \<mapsto> 2]" "''{}''"] e
    by (simp add: compact_json_def bytes_ignoring_error_def)
  have r: "range_resources all_ok_visit Map.empty =
             Inr [''kafka'' \<mapsto> 4, ''tcp'' \<mapsto> 1, ''parser'' \<mapsto> 3, ''udp'' \<mapsto> 2]"
    by (simp add: all_ok_visit_def)
  have c: "compact_json [''kafka'' \<mapsto> 4::nat, ''tcp'' \<mapsto> 1, ''parser'' \<mapsto> 3, ''udp'' \<mapsto> 2] =
             Inr ''{}''"
    by (simp add: compact_json_def)
  have s: "ServeStatistics compact_json indented_json all_ok_visit fresh_writer
             malformed_pretty_request = ([], \<lparr> statusCode = Some 200, body = ''{}'' \<rparr>)"
    using form_error_discarded [of compact_json indented_json "''t0''" "''1s''"
        malformed_pretty_request fresh_writer compact_json indented_json
        all_ok_visit "[''kafka'' \<mapsto> 4, ''tcp'' \<mapsto> 1, ''parser'' \<mapsto> 3, ''udp'' \<mapsto> 2]" "''{}''"] e r c
    by blast
  have p: "ServeStatistics compact_json indented_json all_ok_visit fresh_writer pretty_request =
             ([], \<lparr> statusCode = Some 200, body = [CHR ''{'', CHR 0x0A, CHR ''}''] \<rparr>)"
    unfolding ServeStatistics_def r
    by (simp add: isPretty_def pretty_request_def indented_json_def Write_fresh)
  have f: "ServeDiagnostics failing_json failing_json ''t0'' ''1s'' fresh_writer pretty_request =
             ([], \<lparr> statusCode = Some 200, body = [] \<rparr>)"
    using form_error_discarded [of failing_json failing_json "''t0''" "''1s''" pretty_request fresh_writer compact_json indented_json
        all_ok_visit "[''kafka'' \<mapsto> 4, ''tcp'' \<mapsto> 1, ''parser'' \<mapsto> 3, ''udp'' \<mapsto> 2]" "''{}''"]
    by (simp add: failing_json_def)
  show ?thesis by (intro conjI e d s p f)
qed

section \<open>Startup failures\<close>

lemma snd_run_Cons:
  "snd (run (s # rest)) =
     (case snd s of
        Continue \<Rightarrow> snd (run rest)
      | OsExit code \<Rightarrow> Exit code
      | Panic msg \<Rightarrow> Exit 2
      | Block \<Rightarrow> RunsForever)"
  by (cases s; cases "snd s") (auto split: prod.splits)

lemma run_orderly:
  "list_all orderly stages \<Longrightarrow> snd (run stages) = Exit 1 \<Longrightarrow> exits_after_diagnostic (run stages)"
proof (induction stages)
  case Nil
  then show ?case by simp
next
  case (Cons s stages)
  obtain out ctl where s: "s = (out, ctl)" by (cases s)
  show ?case
  proof (cases ctl)
    case Continue
    with s Cons.prems have "snd (run stages) = Exit 1" by (simp split: prod.splits)
    with Cons have "exits_after_diagnostic (run stages)" by simp
    with s Continue show ?thesis
      by (auto simp: exits_after_diagnostic_def split: prod.splits)
  next
    case (OsExit code)
    with s Cons.prems show ?thesis by (simp add: orderly_def exits_after_diagnostic_def)
  next
    case (Panic msg)
    with s Cons.prems show ?thesis by simp
  next
    case Block
    with s Cons.prems show ?thesis by simp
  qed
qed

lemmas stage_defs = determine_hostname_def log_config_def admin_server_def connect_kafka_def
  start_tcp_def start_udp_def spin_forever_def admin_server_at_def admin_server_from_def
  make_channels_def parser_stage_def

lemma snd_determine_hostname:
  "snd (determine_hostname env) = (if isl (os_Hostname env) then OsExit 1 else Continue)"
  by (simp add: determine_hostname_def split: sum.splits)

lemma snd_log_config: "snd (log_config c) = Continue"
  by (simp add: log_config_def)

lemma snd_admin_server:
  "snd (admin_server c env) =
     (if (case http_ListenAndServe env (adminIface c) of Returns (Some err) \<Rightarrow> True | _ \<Rightarrow> False)
      then OsExit 1 else Continue)"
  by (simp add: admin_server_def split: call.splits option.splits)

lemma snd_admin_server_at:
  "snd (admin_server_at point sched c env) =
     (if sched = point \<and> (case http_ListenAndServe env (adminIface c) of Returns (Some err) \<Rightarrow> True | _ \<Rightarrow> False)
      then OsExit 1 else Continue)"
  by (simp add: admin_server_at_def snd_admin_server)

lemma snd_admin_server_from:
  "snd (admin_server_from point sched c env) =
     (if point \<le> sched \<and> (case http_ListenAndServe env (adminIface c) of Returns (Some err) \<Rightarrow> True | _ \<Rightarrow> False)
      then OsExit 1 else Continue)"
  by (simp add: admin_server_from_def snd_admin_server)

lemma snd_connect_kafka:
  "snd (connect_kafka c env) =
     (if NewKafkaProducer env (strings_Split (kBrokers c) CHR '','') (kTopic c)
           (kBufferTime c) (kBufferBytes c) \<noteq> None then OsExit 1 else Continue)"
  by (simp add: connect_kafka_def split: option.splits)

lemma snd_start_tcp:
  "snd (start_tcp c env) = (if TcpServer_StartChan env (tcpIface c) \<noteq> None then OsExit 1 else Continue)"
  by (simp add: start_tcp_def split: option.splits)

lemma snd_start_udp:
  "snd (start_udp c env) = (if UdpServer_StartChan env (udpIface c) \<noteq> None then OsExit 1 else Continue)"
  by (simp add: start_udp_def split: option.splits)

lemma snd_make_channels:
  "snd (make_channels c env) =
     (if channels_made c env then Continue
      else Panic ''runtime error: makechan: size out of range'')"
  by (auto simp: make_channels_def channels_made_def)

lemma snd_parser_stage: "snd (parser_stage c) = Continue"
  by (simp add: parser_stage_def)

lemmas snd_stage = snd_make_channels snd_parser_stage
  snd_determine_hostname snd_log_config snd_admin_server_at snd_admin_server_from
  snd_connect_kafka snd_start_tcp snd_start_udp

lemma main_outcome:
  "snd (main c env sched) =
     (if isl (os_Hostname env) then Exit 1
      else if \<not> channels_made c env then Exit 2
      else if fatal_startup c env then Exit 1
      else RunsForever)"
proof -
  have "sched = 0 \<or> sched = 1 \<or> sched = 2 \<or> 3 \<le> sched" by arith
  then show ?thesis
    unfolding main_def fatal_startup_def
    by (auto simp add: snd_run_Cons snd_stage spin_forever_def)
qed

lemma orderly_stages:
  "orderly (determine_hostname env)" "orderly (log_config c)" "orderly (admin_server c env)"
  "orderly (connect_kafka c env)" "orderly (start_tcp c env)" "orderly (start_udp c env)"
  "orderly spin_forever" "orderly (admin_server_at point sched c env)"
  "orderly (admin_server_from point sched c env)"
  "orderly (make_channels c env)" "orderly (parser_stage c)"
  by (simp_all add: orderly_def determine_hostname_def log_config_def admin_server_def
      connect_kafka_def start_tcp_def start_udp_def spin_forever_def admin_server_at_def
      admin_server_from_def make_channels_def parser_stage_def
      split: sum.splits option.splits call.splits)

lemma main_orderly:
  "snd (main c env sched) = Exit 1 \<Longrightarrow> exits_after_diagnostic (main c env sched)"
  unfolding main_def by (rule run_orderly) (simp_all add: orderly_stages)

lemma main_panics:
  "\<not> isl (os_Hostname env) \<Longrightarrow> \<not> channels_made c env \<Longrightarrow>
   last (fst (main c env sched)) = PanicReport ''runtime error: makechan: size out of range''"
  by (auto simp: main_def determine_hostname_def log_config_def make_channels_def
      channels_made_def split: sum.splits)

text \<open>
  Claim C3. Wherever the goroutine of the admin server is scheduled: when the hostname
  cannot be determined the program exits with status 1 after its diagnostic. Otherwise
  the channels are made next, and \<open>make\<close> panics on a negative or oversized capacity
  (status 2) before any server or the broker is touched. Once the channels are made,
  the program exits with status 1, the last line written being the diagnostic of a
  failure, whenever the admin server fails to bind, the broker connection fails, or
  the TCP or UDP server fails to start; without such a failure it runs for ever,
  blocked in the empty \<open>select\<close>. It never exits with status 0.
\<close>

theorem startup_exit_codes:
  "(isl (os_Hostname env) \<longrightarrow> exits_after_diagnostic (main c env sched)) \<and>
   (channels_made c env \<and> fatal_startup c env \<longrightarrow> exits_after_diagnostic (main c env sched)) \<and>
   (channels_made c env \<and> \<not> fatal_startup c env \<longrightarrow> snd (main c env sched) = RunsForever) \<and>
   (\<not> isl (os_Hostname env) \<and> \<not> channels_made c env \<longrightarrow>
      snd (main c env sched) = Exit 2 \<and>
      last (fst (main c env sched)) = PanicReport ''runtime error: makechan: size out of range'') \<and>
   snd (main c env sched) \<noteq> Exit 0"
  using main_orderly [of c env sched] main_panics [of env c sched]
  by (auto simp add: main_outcome fatal_startup_def)

theorem startup_exit_codes_witness:
  "channels_made init broker_refuses \<and> fatal_startup init broker_refuses \<and>
   exits_after_diagnostic (main init broker_refuses 2) \<and>
   last (fst (main init broker_refuses 2)) =
     Println [''Failed to create Kafka producer'', ''connection refused''] \<and>
   channels_made init admin_port_taken \<and> fatal_startup init admin_port_taken \<and>
   exits_after_diagnostic (main init admin_port_taken 1) \<and>
   last (fst (main init admin_port_taken 1)) =
     Println [''Failed to start admin server'', ''address already in use''] \<and>
   isl (os_Hostname no_hostname) \<and> exits_after_diagnostic (main negative_capacity no_hostname 0) \<and>
   channels_made init all_up \<and> \<not> fatal_startup init all_up \<and>
   snd (main init all_up 0) = RunsForever \<and>
   \<not> isl (os_Hostname all_up) \<and> \<not> channels_made negative_capacity all_up \<and>
   snd (main negative_capacity all_up 0) = Exit 2"
proof -
  have c1: "channels_made init broker_refuses" "channels_made init admin_port_taken"
    "channels_made init all_up" "\<not> channels_made negative_capacity all_up"
    by (simp_all add: channels_made_def init_def chanCapacity_def negative_capacity_def
        admin_port_taken_def all_up_def broker_refuses_def)
  have h: "isl (os_Hostname no_hostname)" "\<not> isl (os_Hostname all_up)"
    by (simp_all add: no_hostname_def all_up_def broker_refuses_def)
  have f1: "fatal_startup init broker_refuses"
    by (simp add: fatal_startup_def broker_refuses_def)
  have f2: "fatal_startup init admin_port_taken"
    by (simp add: fatal_startup_def admin_port_taken_def all_up_def broker_refuses_def)
  have f3: "\<not> fatal_startup init all_up"
    by (simp add: fatal_startup_def all_up_def broker_refuses_def)
  have l1: "last (fst (main init broker_refuses 2)) =
      Println [''Failed to create Kafka producer'', ''connection refused'']"
    by (simp add: main_def stage_defs broker_refuses_def init_def chanCapacity_def)
  have l2: "last (fst (main init admin_port_taken 1)) =
      Println [''Failed to start admin server'', ''address already in use'']"
    by (simp add: main_def stage_defs admin_port_taken_def all_up_def broker_refuses_def
        init_def chanCapacity_def)
  have e1: "exits_after_diagnostic (main init broker_refuses 2)"
    using startup_exit_codes [of broker_refuses init 2] c1(1) f1 by simp
  have e2: "exits_after_diagnostic (main init admin_port_taken 1)"
    using startup_exit_codes [of admin_port_taken init 1] c1(2) f2 by simp
  have e3: "exits_after_diagnostic (main negative_capacity no_hostname 0)"
    using startup_exit_codes [of no_hostname negative_capacity 0] h(1) by simp
  have r: "snd (main init all_up 0) = RunsForever"
    using startup_exit_codes [of all_up init 0] c1(3) f3 by simp
  have p: "snd (main negative_capacity all_up 0) = Exit 2"
    using startup_exit_codes [of all_up negative_capacity 0] c1(4) h(2) by simp
  show ?thesis
    by (intro conjI c1 h f1 f2 f3 l1 l2 e1 e2 e3 r p)
qed

section \<open>The parser of the specification\<close>

lemma snd_parse_one: "snd (parse_one p raw) = parse_message raw"
  by (simp add: parse_one_def split: ParsedMessage.splits)

lemma StreamingParse_Cons:
  "StreamingParse p (raw # raws) =
     (fst (StreamingParse (fst (parse_one p raw)) raws),
      parse_message raw # snd (StreamingParse (fst (parse_one p raw)) raws))"
  using snd_parse_one [of p raw] by (auto split: prod.splits)

lemma StreamingParse_emits:
  "snd (StreamingParse p raws) = map parse_message raws"
proof (induction raws arbitrary: p)
  case Nil
  show ?case by simp
next
  case (Cons raw raws)
  show ?case unfolding StreamingParse_Cons by (simp add: Cons.IH)
qed

lemma StreamingParse_counters:
  "processed (fst (StreamingParse p raws)) = processed p + length raws \<and>
   parse_errors (fst (StreamingParse p raws)) =
     parse_errors p + length (filter is_passthrough (map parse_message raws)) \<and>
   parse_successes (fst (StreamingParse p raws)) =
     parse_successes p + length (filter (\<lambda>m. \<not> is_passthrough m) (map parse_message raws))"
proof (induction raws arbitrary: p)
  case Nil
  then show ?case by simp
next
  case (Cons raw raws)
  obtain p' m where one: "parse_one p raw = (p', m)" by (cases "parse_one p raw")
  then have m: "m = parse_message raw"
    by (auto simp: parse_one_def split: ParsedMessage.splits)
  from one have p':
    "processed p' = processed p + 1"
    "parse_errors p' = parse_errors p + (if is_passthrough m then 1 else 0)"
    "parse_successes p' = parse_successes p + (if is_passthrough m then 0 else 1)"
    by (auto simp: parse_one_def is_passthrough_def split: ParsedMessage.splits)
  have "fst (StreamingParse p (raw # raws)) = fst (StreamingParse p' raws)"
    using one by (simp split: prod.splits)
  with Cons.IH [of p'] p' m show ?case by simp
qed

lemma parse_message_cases:
  "parse_message raw =
     (case parse_rfc5424 raw of Inr r \<Rightarrow> Structured r | Inl reason \<Rightarrow> Passthrough raw reason)"
  by (simp add: parse_message_def)

lemmas parser_defs = parse_rfc5424_def and_then_def parse_pri_def take_field_def nilvalue_def
  parse_structured_data_def parse_msg_def parse_nat_def digit_of_def decimal_digits_def
  parse_message_def

lemma parse_example_line:
  "parse_rfc5424 example_line =
     Inr \<lparr> facility = 4, severity = 2, protocol_version = ''1'',
           timestamp = Some ''2021-03-01T12:00:00Z'', hostname = Some ''host1'',
           app_name = Some ''app1'', proc_id = Some ''123'', msg_id = Some ''ID47'',
           structured_data = [], message_body = ''message body'' \<rparr>"
  by (simp add: example_line_def parser_defs)

lemma parse_no_pri_line: "parse_rfc5424 no_pri_line = Inl MalformedPri"
  by (simp add: no_pri_line_def parser_defs)

lemma parse_open_bracket_line: "parse_rfc5424 open_bracket_line = Inl UnterminatedStructuredData"
  by (simp add: open_bracket_line_def parser_defs)

lemma parse_pri_example_line:
  "parse_pri example_line = Inr (34, ''1 2021-03-01T12:00:00Z host1 app1 123 ID47 - message body'')"
  by (simp add: example_line_def parser_defs)

lemma facility_severity:
  "parse_pri raw = Inr (p, rest) \<Longrightarrow> parse_rfc5424 raw = Inr r \<Longrightarrow>
   facility r = p div 8 \<and> severity r = p mod 8"
  by (auto simp: parse_rfc5424_def and_then_def split: sum.splits prod.splits)

text \<open>
  Claim C4. The parser emits exactly one ParsedMessage for each message of the raw
  queue, in order: the structured record when the decomposition succeeds, and otherwise
  the original message, unchanged, tagged with the reason. Each message is counted as
  processed, and each failure as a parse error. The parser is a total function with no
  fatal result: malformed input only ever yields a passthrough.
\<close>

theorem parser_total:
  "length (snd (StreamingParse p raws)) = length raws \<and>
   snd (StreamingParse p raws) =
     map (\<lambda>raw. case parse_rfc5424 raw of
                   Inr r \<Rightarrow> Structured r
                 | Inl reason \<Rightarrow> Passthrough raw reason) raws \<and>
   processed (fst (StreamingParse p raws)) = processed p + length raws \<and>
   parse_errors (fst (StreamingParse p raws)) =
     parse_errors p + length (filter (\<lambda>raw. isl (parse_rfc5424 raw)) raws)"
proof -
  have e: "snd (StreamingParse p raws) = map parse_message raws" by (rule StreamingParse_emits)
  have "filter is_passthrough (map parse_message raws) =
        map parse_message (filter (\<lambda>raw. isl (parse_rfc5424 raw)) raws)"
    by (induction raws) (auto simp: is_passthrough_def parse_message_def split: sum.splits)
  then have "length (filter is_passthrough (map parse_message raws)) =
        length (filter (\<lambda>raw. isl (parse_rfc5424 raw)) raws)" by simp
  with StreamingParse_counters [of p raws] e show ?thesis
    by (simp add: parse_message_def [abs_def])
qed

theorem parser_total_witness:
  "snd (StreamingParse NewRfc5424Parser [example_line, no_pri_line, open_bracket_line]) =
     [parse_message example_line,
      Passthrough no_pri_line MalformedPri,
      Passthrough open_bracket_line UnterminatedStructuredData] \<and>
   processed (fst (StreamingParse NewRfc5424Parser [example_line, no_pri_line, open_bracket_line])) = 3 \<and>
   parse_errors (fst (StreamingParse NewRfc5424Parser [example_line, no_pri_line, open_bracket_line])) = 2"
  using parser_total [of NewRfc5424Parser "[example_line, no_pri_line, open_bracket_line]"]
  by (simp add: parse_example_line parse_no_pri_line parse_open_bracket_line
      NewRfc5424Parser_def parse_message_def)

text \<open>
  Claim C7. A message whose PRI holds the priority p is decomposed into facility
  p div 8 and severity p mod 8; the example line of the specification yields facility
  4, severity 2, hostname host1, application name app1, process id 123, message id
  ID47, no structured data and the body "message body".
\<close>

theorem pri_decomposition:
  "(parse_pri raw = Inr (p, rest) \<and> parse_rfc5424 raw = Inr r \<longrightarrow>
      facility r = p div 8 \<and> severity r = p mod 8) \<and>
   parse_message example_line =
     Structured \<lparr> facility = 4, severity = 2, protocol_version = ''1'',
           timestamp = Some ''2021-03-01T12:00:00Z'', hostname = Some ''host1'',
           app_name = Some ''app1'', proc_id = Some ''123'', msg_id = Some ''ID47'',
           structured_data = [], message_body = ''message body'' \<rparr>"
  using facility_severity [of raw p rest r]
  by (simp add: parse_message_def parse_example_line)

theorem pri_decomposition_witness:
  "parse_pri example_line = Inr (34, ''1 2021-03-01T12:00:00Z host1 app1 123 ID47 - message body'') \<and>
   (\<exists>r. parse_rfc5424 example_line = Inr r \<and> facility r = 34 div 8 \<and> severity r = 34 mod 8 \<and>
        facility r = 4 \<and> severity r = 2)"
proof -
  obtain r where r: "parse_rfc5424 example_line = Inr r" "facility r = 4" "severity r = 2"
    using parse_example_line by simp
  from pri_decomposition [of example_line 34 _ r] parse_pri_example_line r
  have "facility r = 34 div 8 \<and> severity r = 34 mod 8" by blast
  with r parse_pri_example_line show ?thesis by blast
qed

section \<open>The pipeline: disabled parsing and the batch size\<close>

text \<open>
  Claim C1, as stated, fails: with parsing disabled, a message that flows through the
  pipeline leaves the processed counter of the parser where it was, while the same
  message with parsing enabled is counted.
\<close>

theorem disabled_mode_counts_nothing:
  "snd (pipeline False NewRfc5424Parser StreamingParse_text [example_line]) = [example_line] \<and>
   processed (fst (pipeline False NewRfc5424Parser StreamingParse_text [example_line])) =
     processed NewRfc5424Parser \<and>
   processed (fst (pipeline True NewRfc5424Parser StreamingParse_text [example_line])) =
     processed NewRfc5424Parser + 1"
  by (simp add: pipeline_def StreamingParse_text_def parse_one_def parse_message_def
      parse_example_line NewRfc5424Parser_def)

text \<open>
  Claim C1, amended. With parsing disabled the producer channel is the raw channel:
  every message reaches the producer unchanged and in order, and the parser that
  \<open>main\<close> creates is never given a message, so it stays as created, whatever the parser
  package does.
\<close>

theorem disabled_mode_bypasses_parser:
  "pipeline False new_parser streaming_parse rawChan = (new_parser, rawChan)"
  by (simp add: pipeline_def)

lemma start_producer_ignores_kBatch:
  "start_producer new_producer (c\<lparr>kBatch := n\<rparr>) prodChan = start_producer new_producer c prodChan"
  by (simp add: start_producer_def)

text \<open>
  Claim C5. The flag \<open>-batch\<close> is registered as the Kafka batch size and logged, but
  \<open>main\<close> creates the producer from the producer channel, the broker list, the topic,
  kBufferTime and kBufferBytes only. With \<open>-batch=3\<close> the producer is therefore given
  exactly what it is given with the default batch size of 10, and does the same with
  the three items; no producer behind this call flushes them once when kBatch is 3 and
  not at all when kBatch is 10, as the claim requires.
\<close>

theorem batch_size_never_reaches_producer:
  "start_producer new_producer (init\<lparr>kBatch := 3\<rparr>) three_quick_items =
     start_producer new_producer init three_quick_items \<and>
   \<not> (\<exists>producer. count_trigger_scenario producer)"
  by (simp add: count_trigger_scenario_def start_producer_ignores_kBatch)


end
